theory Spec2Isabelle
  imports Complex_Main "HOL-Library.Log_Nat" "HOL-Library.Multiset"
begin

section \<open>Furniture matcher and budget engine\<close>

text \<open>
  The matcher is the Python of the implementation plan (stage 3): the static tables
  \<open>BUDGET_TIERS\<close>, \<open>ROOM_BUDGET_ALLOCATION\<close>, \<open>ROOM_FURNITURE_REQUIREMENTS\<close> and
  \<open>ROOM_BUDGET_WEIGHT\<close>, and the functions \<open>match_furniture_for_room\<close>,
  \<open>get_max_dimension_for_slot\<close>, \<open>query_supabase_for_matching\<close>, \<open>rank_candidates\<close> and
  \<open>distribute_budget_across_rooms\<close>.

  Numbers: in the matcher Python's \<open>float\<close> values are modelled as exact rationals, so the
  rounding error of binary floating point is outside that part of the model; \<open>round(x, n)\<close>
  is written out as rounding half to even on the exact value. The budget distribution is
  modelled in double arithmetic. Python's exceptions are values of \<open>py_error\<close>.
\<close>

subsection \<open>Python values\<close>

datatype py_error = KeyError | ZeroDivisionError | TypeError | IndexError

text \<open>Truthiness of an optional string and of an optional number (\<open>if c.get("k"):\<close>).\<close>

fun truthy_str :: "string option \<Rightarrow> bool" where
  "truthy_str None = False"
| "truthy_str (Some s) = (s \<noteq> [])"

fun truthy_num :: "rat option \<Rightarrow> bool" where
  "truthy_num None = False"
| "truthy_num (Some x) = (x \<noteq> 0)"

text \<open>\<open>round(x, ndigits)\<close>: to the nearest multiple of \<open>10 ^ -ndigits\<close>, ties to even.\<close>

definition py_round :: "rat \<Rightarrow> nat \<Rightarrow> rat" where
  "py_round x ndigits =
     (let s = 10 ^ ndigits;
          y = x * s;
          f = \<lfloor>y\<rfloor>;
          d = y - of_int f
      in of_int (if d < 1 / 2 then f
                 else if 1 / 2 < d then f + 1
                 else if even f then f else f + 1) / s)"

text \<open>\<open>int(x)\<close> on a number: truncation towards zero.\<close>

definition py_int :: "rat \<Rightarrow> int" where
  "py_int x = (if 0 \<le> x then \<lfloor>x\<rfloor> else \<lceil>x\<rceil>)"

text \<open>\<open>s.split("_")[0]\<close>: the part of \<open>s\<close> before the first underscore.\<close>

definition split_first :: "string \<Rightarrow> string" where
  "split_first s = takeWhile (\<lambda>c. c \<noteq> CHR ''_'') s"

subsection \<open>Catalog rows\<close>

text \<open>
  A row of the \<open>products\<close> table, with the columns the matcher, the query and the ranker
  read. Every column but \<open>name\<close> is nullable in the schema.
\<close>

record product =
  name :: string
  price :: "rat option"
  currency :: "string option"
  category :: "string option"
  subcategory :: "string option"
  room_type :: "string option"
  style :: "string option"
  width_cm :: "rat option"
  height_cm :: "rat option"
  depth_cm :: "rat option"
  dimensions_source :: "string option"
  proportion_w_h :: "rat option"
  proportion_w_d :: "rat option"
  visual_description :: "string option"
  luxury_score :: "rat option"
  image_usable :: bool
  primary_material :: "string option"
  color :: "string option"
  r2_main_image_key :: "string option"
  in_stock :: bool
  rating :: "rat option"
  product_url :: "string option"
  source_domain :: "string option"

subsection \<open>rank_candidates\<close>

text \<open>The score of one candidate: the conditional additions of the loop body, in order.\<close>

definition price_points :: "product \<Rightarrow> rat \<Rightarrow> string \<Rightarrow> int" where
  "price_points c target_price tier =
     (case price c of
        None \<Rightarrow> 0
      | Some p \<Rightarrow>
          if p \<noteq> 0 \<and> target_price \<noteq> 0 then
            (let price_ratio = p / target_price in
               (if 6 / 10 \<le> price_ratio \<and> price_ratio \<le> 11 / 10 then 30
                else if 4 / 10 \<le> price_ratio \<and> price_ratio \<le> 13 / 10 then 15
                else 0)
               + (if tier = ''luxury'' \<and> 8 / 10 < price_ratio then 10 else 0))
          else 0)"

definition image_points :: "product \<Rightarrow> int" where
  "image_points c = (if truthy_str (r2_main_image_key c) then 25 else 0)"

definition dimension_points :: "product \<Rightarrow> int" where
  "dimension_points c =
     (if dimensions_source c \<in> {Some ''website_verified'', Some ''ai_estimated''} then 20
      else if truthy_num (width_cm c) then 10
      else 0)"

definition description_points :: "product \<Rightarrow> int" where
  "description_points c = (if truthy_str (visual_description c) then 15 else 0)"

definition proportion_points :: "product \<Rightarrow> int" where
  "proportion_points c = (if truthy_num (proportion_w_h c) then 15 else 0)"

definition luxury_points :: "product \<Rightarrow> string \<Rightarrow> int" where
  "luxury_points c tier =
     (case luxury_score c of
        None \<Rightarrow> 0
      | Some l \<Rightarrow>
          if l \<noteq> 0 then
            (if tier = ''luxury'' \<and> 7 / 10 < l then 15
             else if tier = ''budget'' \<and> l < 3 / 10 then 10
             else if tier \<in> {''standard'', ''premium''} \<and> 3 / 10 \<le> l \<and> l \<le> 7 / 10 then 10
             else 0)
          else 0)"

definition rating_points :: "product \<Rightarrow> int" where
  "rating_points c =
     (case rating c of None \<Rightarrow> 0 | Some r \<Rightarrow> if r \<noteq> 0 \<and> 4 \<le> r then 10 else 0)"

definition score :: "product \<Rightarrow> rat \<Rightarrow> string \<Rightarrow> int" where
  "score c target_price tier =
     price_points c target_price tier + image_points c + dimension_points c
     + description_points c + proportion_points c + luxury_points c tier + rating_points c"

text \<open>
  \<open>scored.sort(key=lambda x: -x[0])\<close> is a stable sort by descending score;
  \<open>scored[0][1] if scored else candidates[0]\<close> raises \<open>IndexError\<close> on an empty list.
\<close>

definition rank_candidates :: "product list \<Rightarrow> rat \<Rightarrow> string \<Rightarrow> py_error + product" where
  "rank_candidates candidates target_price tier =
     (let scored = map (\<lambda>c. (score c target_price tier, c)) candidates;
          sorted_scored = sort_key (\<lambda>x. - fst x) scored
      in case sorted_scored of
           x # _ \<Rightarrow> Inr (snd x)
         | [] \<Rightarrow> (case candidates of [] \<Rightarrow> Inl IndexError | c # _ \<Rightarrow> Inr c))"

subsection \<open>Static configuration\<close>

text \<open>
  \<open>BUDGET_TIERS\<close>: the matcher reads \<open>preferred_sources\<close> only; the display strings
  \<open>label\<close> and \<open>description\<close> are left out. Dictionaries are association lists in
  the order of the source, looked up with \<open>map_of\<close>.
\<close>

record tier_config =
  per_sqm_eur :: "rat \<times> rat"
  preferred_sources :: "string list"
  max_single_item_pct :: rat
  style_keywords :: "string list"

definition BUDGET_TIERS :: "(string \<times> tier_config) list" where
  "BUDGET_TIERS =
     [(''budget'',
         \<lparr>per_sqm_eur = (30, 60),
          preferred_sources = [''jysk.bg'', ''ikea.bg'', ''emag.bg''],
          max_single_item_pct = 35 / 100,
          style_keywords = [''budget'', ''basic'', ''functional'', ''minimalist'']\<rparr>),
      (''standard'',
         \<lparr>per_sqm_eur = (60, 150),
          preferred_sources = [''videnov.bg'', ''ikea.bg'', ''aiko-bg.com''],
          max_single_item_pct = 30 / 100,
          style_keywords = [''modern'', ''scandinavian'', ''contemporary'']\<rparr>),
      (''premium'',
         \<lparr>per_sqm_eur = (150, 350),
          preferred_sources = [''wayfair.co.uk'', ''ikea.com'', ''videnov.bg''],
          max_single_item_pct = 25 / 100,
          style_keywords = [''premium'', ''designer'', ''high-end'']\<rparr>),
      (''luxury'',
         \<lparr>per_sqm_eur = (350, 1000),
          preferred_sources = [''wayfair.co.uk''],
          max_single_item_pct = 25 / 100,
          style_keywords = [''luxury'', ''premium'', ''designer'', ''exclusive'']\<rparr>)]"

type_synonym allocation_table = "(string \<times> rat \<times> rat) list"

definition ROOM_BUDGET_ALLOCATION :: "(string \<times> allocation_table) list" where
  "ROOM_BUDGET_ALLOCATION =
     [(''living room'',
         [(''seating'', (30 / 100, 40 / 100)),
          (''tables'', (8 / 100, 15 / 100)),
          (''storage'', (10 / 100, 20 / 100)),
          (''lighting'', (5 / 100, 10 / 100)),
          (''rugs'', (5 / 100, 10 / 100)),
          (''decor'', (5 / 100, 10 / 100))]),
      (''bedroom'',
         [(''bed'', (35 / 100, 45 / 100)),
          (''storage'', (20 / 100, 30 / 100)),
          (''nightstands'', (8 / 100, 12 / 100)),
          (''lighting'', (5 / 100, 10 / 100)),
          (''rugs'', (3 / 100, 8 / 100)),
          (''decor'', (3 / 100, 8 / 100))]),
      (''kitchen'',
         [(''dining_table'', (25 / 100, 35 / 100)),
          (''chairs'', (20 / 100, 30 / 100)),
          (''storage'', (15 / 100, 25 / 100)),
          (''lighting'', (5 / 100, 10 / 100)),
          (''accessories'', (5 / 100, 10 / 100))]),
      (''dining room'',
         [(''dining_table'', (30 / 100, 40 / 100)),
          (''chairs'', (25 / 100, 35 / 100)),
          (''storage'', (10 / 100, 20 / 100)),
          (''lighting'', (5 / 100, 10 / 100)),
          (''decor'', (5 / 100, 10 / 100))]),
      (''office'',
         [(''desk'', (30 / 100, 40 / 100)),
          (''chair'', (20 / 100, 30 / 100)),
          (''storage'', (15 / 100, 25 / 100)),
          (''lighting'', (5 / 100, 10 / 100)),
          (''accessories'', (5 / 100, 10 / 100))]),
      (''kids room'',
         [(''bed'', (30 / 100, 40 / 100)),
          (''desk'', (15 / 100, 20 / 100)),
          (''storage'', (20 / 100, 30 / 100)),
          (''lighting'', (5 / 100, 10 / 100)),
          (''decor'', (5 / 100, 10 / 100))])]"

text \<open>A slot's \<open>quantity\<close> is an integer or a pair \<open>(min, max)\<close>.\<close>

datatype slot_quantity = Fixed int | Range int int

record slot_req =
  slot_name :: string
  categories :: "string list"
  req_quantity :: slot_quantity

record room_requirements =
  required :: "slot_req list"
  optional :: "slot_req list"

definition ROOM_FURNITURE_REQUIREMENTS :: "(string \<times> room_requirements) list" where
  "ROOM_FURNITURE_REQUIREMENTS =
     [(''living room'',
         \<lparr>required =
            [\<lparr>slot_name = ''sofa'', categories = [''sofa'', ''corner sofa'', ''sofa bed''],
              req_quantity = Fixed 1\<rparr>,
             \<lparr>slot_name = ''coffee_table'', categories = [''coffee table'', ''table''],
              req_quantity = Fixed 1\<rparr>],
          optional =
            [\<lparr>slot_name = ''tv_unit'', categories = [''TV stand'', ''wall unit'', ''shelving''],
              req_quantity = Fixed 1\<rparr>,
             \<lparr>slot_name = ''armchair'', categories = [''armchair'', ''chair''],
              req_quantity = Range 0 2\<rparr>,
             \<lparr>slot_name = ''bookcase'', categories = [''bookcase'', ''shelf unit'', ''shelving''],
              req_quantity = Range 0 1\<rparr>,
             \<lparr>slot_name = ''floor_lamp'', categories = [''lamp'', ''floor lamp''],
              req_quantity = Range 0 2\<rparr>,
             \<lparr>slot_name = ''rug'', categories = [''rug'', ''carpet''],
              req_quantity = Range 0 1\<rparr>,
             \<lparr>slot_name = ''side_table'', categories = [''side table'', ''table''],
              req_quantity = Range 0 2\<rparr>]\<rparr>),
      (''bedroom'',
         \<lparr>required =
            [\<lparr>slot_name = ''bed'', categories = [''bed'', ''double bed''],
              req_quantity = Fixed 1\<rparr>,
             \<lparr>slot_name = ''wardrobe'', categories = [''wardrobe'', ''cabinet''],
              req_quantity = Fixed 1\<rparr>],
          optional =
            [\<lparr>slot_name = ''nightstand'', categories = [''nightstand'', ''bedside table''],
              req_quantity = Range 0 2\<rparr>,
             \<lparr>slot_name = ''dresser'', categories = [''dresser'', ''chest of drawers''],
              req_quantity = Range 0 1\<rparr>,
             \<lparr>slot_name = ''mirror'', categories = [''mirror''],
              req_quantity = Range 0 1\<rparr>,
             \<lparr>slot_name = ''lamp'', categories = [''lamp'', ''table lamp''],
              req_quantity = Range 0 2\<rparr>,
             \<lparr>slot_name = ''rug'', categories = [''rug''],
              req_quantity = Range 0 1\<rparr>]\<rparr>),
      (''kitchen'',
         \<lparr>required =
            [\<lparr>slot_name = ''dining_table'',
              categories = [''dining table'', ''kitchen table'', ''table''],
              req_quantity = Fixed 1\<rparr>,
             \<lparr>slot_name = ''chairs'', categories = [''dining chair'', ''chair''],
              req_quantity = Range 2 6\<rparr>],
          optional =
            [\<lparr>slot_name = ''storage'', categories = [''cabinet'', ''shelf unit''],
              req_quantity = Range 0 1\<rparr>]\<rparr>),
      (''office'',
         \<lparr>required =
            [\<lparr>slot_name = ''desk'', categories = [''desk'', ''office desk''],
              req_quantity = Fixed 1\<rparr>,
             \<lparr>slot_name = ''chair'', categories = [''office chair'', ''chair''],
              req_quantity = Fixed 1\<rparr>],
          optional =
            [\<lparr>slot_name = ''bookcase'', categories = [''bookcase'', ''shelf unit''],
              req_quantity = Range 0 2\<rparr>,
             \<lparr>slot_name = ''lamp'', categories = [''desk lamp'', ''lamp''],
              req_quantity = Range 0 1\<rparr>]\<rparr>)]"


subsection \<open>Rooms and get_max_dimension_for_slot\<close>

text \<open>
  The room dictionary of the room analysis. \<open>estimated_area_sqm\<close>, \<open>usable_walls\<close>,
  \<open>suitable_for\<close> and \<open>free_length_cm\<close> are read with \<open>.get\<close> and a default; a missing
  list is the empty list, a missing number is \<open>None\<close>.
\<close>

record wall =
  wall_name :: string
  free_length_cm :: "rat option"
  suitable_for :: "string list"

record room =
  room_id :: string
  rtype :: string
  estimated_width_cm :: rat
  estimated_depth_cm :: rat
  estimated_area_sqm :: "rat option"
  usable_walls :: "wall list"

definition get_max_dimension_for_slot :: "string \<Rightarrow> room \<Rightarrow> int" where
  "get_max_dimension_for_slot slot room =
     (let room_width = estimated_width_cm room;
          room_depth = estimated_depth_cm room
      in case find (\<lambda>wall. slot \<in> set (suitable_for wall)) (usable_walls room) of
           Some wall \<Rightarrow>
             py_int (case free_length_cm wall of Some l \<Rightarrow> l | None \<Rightarrow> room_width * (6 / 10))
         | None \<Rightarrow>
             (let limits =
                [(''sofa'', room_width * (75 / 100)),
                 (''coffee_table'', room_width * (35 / 100)),
                 (''bed'', min (room_width * (7 / 10)) 220),
                 (''wardrobe'', room_width * (6 / 10)),
                 (''desk'', min (room_width * (5 / 10)) 180),
                 (''dining_table'', min (room_width * (6 / 10)) (room_depth * (5 / 10))),
                 (''tv_unit'', room_width * (5 / 10)),
                 (''bookcase'', room_width * (4 / 10)),
                 (''nightstand'', 60),
                 (''dresser'', room_width * (4 / 10)),
                 (''lamp'', 50),
                 (''rug'', room_width * (7 / 10)),
                 (''chair'', 80),
                 (''armchair'', 100),
                 (''side_table'', 60),
                 (''mirror'', room_width * (3 / 10))]
              in py_int (case map_of limits slot of
                           Some l \<Rightarrow> l
                         | None \<Rightarrow> room_width * (5 / 10))))"

subsection \<open>query_supabase_for_matching\<close>

text \<open>
  The keyword arguments of the query, with Python's defaults. The table is a list of rows.
  The filters are the \<open>WHERE\<close> clauses the query builder adds, each under its Python guard
  (\<open>if categories:\<close> is truthiness, \<open>if min_price is not None:\<close> is presence). A comparison
  with a \<open>NULL\<close> column is false. \<open>ILIKE '%s%'\<close> is a case-insensitive substring test
  (ASCII letters; the characters of \<open>s\<close> are taken literally). \<open>ORDER BY rating DESC NULLS
  LAST\<close> leaves the order of rows of equal rating to the database: the order of the list
  stands for the order in which the database yields such rows on this call, and the sort
  is stable on it. Two calls against the same catalog are two lists with the same rows.
\<close>

record match_query =
  q_categories :: "string list option"
  q_room :: "string option"
  q_style :: "string option"
  q_min_price :: "rat option"
  q_max_price :: "rat option"
  q_max_width :: "int option"
  q_preferred_sources :: "string list option"
  q_require_usable_image :: bool
  q_require_proportions :: bool
  q_limit :: nat

definition default_query :: match_query where
  "default_query =
     \<lparr>q_categories = None, q_room = None, q_style = None, q_min_price = None,
      q_max_price = None, q_max_width = None, q_preferred_sources = None,
      q_require_usable_image = True, q_require_proportions = False, q_limit = 10\<rparr>"

definition lower_char :: "char \<Rightarrow> char" where
  "lower_char c =
     (if (65 :: nat) \<le> of_char c \<and> of_char c \<le> (90 :: nat)
      then char_of (of_char c + (32 :: nat)) else c)"

fun starts_with :: "'a list \<Rightarrow> 'a list \<Rightarrow> bool" where
  "starts_with [] ys = True"
| "starts_with (x # xs) [] = False"
| "starts_with (x # xs) (y # ys) = (x = y \<and> starts_with xs ys)"

fun contains_sub :: "'a list \<Rightarrow> 'a list \<Rightarrow> bool" where
  "contains_sub xs [] = (xs = [])"
| "contains_sub xs (y # ys) = (starts_with xs (y # ys) \<or> contains_sub xs ys)"

definition ilike_contains :: "string option \<Rightarrow> string \<Rightarrow> bool" where
  "ilike_contains col s =
     (case col of
        None \<Rightarrow> False
      | Some v \<Rightarrow> contains_sub (map lower_char s) (map lower_char v))"

definition opt_in :: "'a option \<Rightarrow> 'a list \<Rightarrow> bool" where
  "opt_in col vs = (case col of None \<Rightarrow> False | Some v \<Rightarrow> v \<in> set vs)"

definition row_matches :: "match_query \<Rightarrow> product \<Rightarrow> bool" where
  "row_matches q p =
     ((case q_categories q of
         None \<Rightarrow> True
       | Some cs \<Rightarrow> if cs = [] then True else opt_in (category p) cs \<or> opt_in (subcategory p) cs)
      \<and> (case q_room q of
         None \<Rightarrow> True
       | Some r \<Rightarrow> if r = [] then True else ilike_contains (room_type p) r)
      \<and> (case q_style q of
         None \<Rightarrow> True
       | Some s \<Rightarrow> if s = [] then True else ilike_contains (style p) s \<or> style p = None)
      \<and> (case q_min_price q of
         None \<Rightarrow> True
       | Some lo \<Rightarrow> (case price p of None \<Rightarrow> False | Some x \<Rightarrow> lo \<le> x))
      \<and> (case q_max_price q of
         None \<Rightarrow> True
       | Some hi \<Rightarrow> (case price p of None \<Rightarrow> False | Some x \<Rightarrow> x \<le> hi))
      \<and> (case q_max_width q of
         None \<Rightarrow> True
       | Some w \<Rightarrow>
           if w = 0 then True
           else (case width_cm p of None \<Rightarrow> True | Some x \<Rightarrow> x \<le> of_int w))
      \<and> (if q_require_usable_image q
          then image_usable p \<and> r2_main_image_key p \<noteq> None else True)
      \<and> (if q_require_proportions q then proportion_w_h p \<noteq> None else True)
      \<and> in_stock p
      \<and> (case q_preferred_sources q of
         None \<Rightarrow> True
       | Some srcs \<Rightarrow> if srcs = [] then True else opt_in (source_domain p) srcs))"

definition order_by_rating_desc :: "product list \<Rightarrow> product list" where
  "order_by_rating_desc rows =
     sort_key (\<lambda>p. case rating p of Some r \<Rightarrow> - r | None \<Rightarrow> 0)
       (filter (\<lambda>p. rating p \<noteq> None) rows)
     @ filter (\<lambda>p. rating p = None) rows"

definition query_supabase_for_matching :: "product list \<Rightarrow> match_query \<Rightarrow> product list" where
  "query_supabase_for_matching tbl q =
     take (q_limit q) (order_by_rating_desc (filter (row_matches q) tbl))"

subsection \<open>match_furniture_for_room\<close>

text \<open>
  What the function reads from outside: the rows of the \<open>products\<close> table,
  \<open>get_placement_for_slot\<close> (called by the matcher, defined nowhere in the repository:
  a parameter, taken to return without raising) and \<open>R2_PUBLIC_URL\<close> (an environment
  variable).
\<close>

record matcher_env =
  supabase_products :: "product list"
  get_placement_for_slot :: "string \<Rightarrow> room \<Rightarrow> string"
  R2_PUBLIC_URL :: string

text \<open>\<open>get_image_url\<close>: an f-string; a \<open>None\<close> key is formatted as \<open>None\<close>.\<close>

definition get_image_url :: "matcher_env \<Rightarrow> string option \<Rightarrow> string" where
  "get_image_url env r2_key =
     R2_PUBLIC_URL env @ ''/'' @ (case r2_key of None \<Rightarrow> ''None'' | Some k \<Rightarrow> k)"

record matched_item =
  slot :: string
  product :: product
  quantity :: int
  placement :: string

text \<open>The three accumulators of the function body.\<close>

record match_state =
  selected_products :: "matched_item list"
  total_spent :: rat
  remaining_budget :: rat

definition resolve_quantity :: "slot_quantity \<Rightarrow> int" where
  "resolve_quantity q = (case q of Fixed n \<Rightarrow> n | Range lo hi \<Rightarrow> hi)"

definition required_alloc :: "allocation_table \<Rightarrow> string \<Rightarrow> rat \<times> rat" where
  "required_alloc allocations sname =
     (case map_of allocations (split_first sname) of
        Some a \<Rightarrow> a
      | None \<Rightarrow> (case map_of allocations sname of Some a \<Rightarrow> a | None \<Rightarrow> (15 / 100, 25 / 100)))"

definition optional_alloc :: "allocation_table \<Rightarrow> string \<Rightarrow> rat \<times> rat" where
  "optional_alloc allocations sname =
     (case map_of allocations sname of Some a \<Rightarrow> a | None \<Rightarrow> (3 / 100, 8 / 100))"

text \<open>The arguments of the two calls of \<open>query_supabase_for_matching\<close>.\<close>

definition required_query ::
  "string list \<Rightarrow> string \<Rightarrow> string option \<Rightarrow> rat \<Rightarrow> int \<Rightarrow> tier_config \<Rightarrow> match_query" where
  "required_query cats rt sty per_item_budget max_width cfg =
     default_query
       \<lparr>q_categories := Some cats,
        q_room := Some rt,
        q_style := sty,
        q_min_price := Some (per_item_budget * (3 / 10)),
        q_max_price := Some per_item_budget,
        q_max_width := Some max_width,
        q_preferred_sources := Some (preferred_sources cfg),
        q_require_usable_image := True,
        q_require_proportions := True,
        q_limit := 5\<rparr>"

definition optional_query ::
  "string list \<Rightarrow> string option \<Rightarrow> rat \<Rightarrow> int \<Rightarrow> tier_config \<Rightarrow> match_query" where
  "optional_query cats sty slot_budget max_width cfg =
     default_query
       \<lparr>q_categories := Some cats,
        q_max_price := Some slot_budget,
        q_style := sty,
        q_max_width := Some max_width,
        q_preferred_sources := Some (preferred_sources cfg),
        q_require_usable_image := True,
        q_limit := 3\<rparr>"

text \<open>
  One purchase: the item is appended, its price added to \<open>total_spent\<close> and taken from
  \<open>remaining_budget\<close>. Adding a \<open>None\<close> price raises \<open>TypeError\<close>.
\<close>

definition purchase ::
  "matcher_env \<Rightarrow> room \<Rightarrow> string \<Rightarrow> product \<Rightarrow> match_state \<Rightarrow> py_error + match_state" where
  "purchase env rm sname best st =
     (case price best of
        None \<Rightarrow> Inl TypeError
      | Some p \<Rightarrow>
          Inr (st\<lparr>selected_products :=
                     selected_products st
                     @ [\<lparr>slot = sname, product = best, quantity = 1,
                         placement = get_placement_for_slot env sname rm\<rparr>],
                   total_spent := total_spent st + p,
                   remaining_budget := remaining_budget st - p\<rparr>))"

text \<open>\<open>for i in range(quantity)\<close>: the same winner is bought \<open>quantity\<close> times.\<close>

fun purchase_units ::
  "nat \<Rightarrow> matcher_env \<Rightarrow> room \<Rightarrow> string \<Rightarrow> product \<Rightarrow> match_state \<Rightarrow> py_error + match_state" where
  "purchase_units 0 env rm sname best st = Inr st"
| "purchase_units (Suc n) env rm sname best st =
     (case purchase env rm sname best st of
        Inl e \<Rightarrow> Inl e
      | Inr st' \<Rightarrow> purchase_units n env rm sname best st')"

text \<open>The body of the loop over the required slots.\<close>

definition per_item_budget_of :: "allocation_table \<Rightarrow> slot_req \<Rightarrow> match_state \<Rightarrow> rat" where
  "per_item_budget_of allocations sl st =
     (let alloc = required_alloc allocations (slot_name sl);
          slot_budget = remaining_budget st * snd alloc
      in slot_budget / of_int (resolve_quantity (req_quantity sl)))"

definition required_candidates ::
  "matcher_env \<Rightarrow> room \<Rightarrow> string option \<Rightarrow> tier_config \<Rightarrow> allocation_table \<Rightarrow> slot_req
     \<Rightarrow> match_state \<Rightarrow> product list" where
  "required_candidates env rm sty cfg allocations sl st =
     query_supabase_for_matching (supabase_products env)
       (required_query (categories sl) (rtype rm) sty (per_item_budget_of allocations sl st)
          (get_max_dimension_for_slot (slot_name sl) rm) cfg)"

definition fill_required_slot ::
  "matcher_env \<Rightarrow> room \<Rightarrow> string \<Rightarrow> string option \<Rightarrow> tier_config \<Rightarrow> allocation_table
     \<Rightarrow> slot_req \<Rightarrow> match_state \<Rightarrow> py_error + match_state" where
  "fill_required_slot env rm tier sty cfg allocations sl st =
     (let qty = resolve_quantity (req_quantity sl) in
      if qty = 0 then Inl ZeroDivisionError
      else
        (let per_item_budget = per_item_budget_of allocations sl st;
             candidates = required_candidates env rm sty cfg allocations sl st
         in if candidates \<noteq> [] then
              (case rank_candidates candidates per_item_budget tier of
                 Inl e \<Rightarrow> Inl e
               | Inr best \<Rightarrow> purchase_units (nat qty) env rm (slot_name sl) best st)
            else Inr st))"

fun fill_required ::
  "matcher_env \<Rightarrow> room \<Rightarrow> string \<Rightarrow> string option \<Rightarrow> tier_config \<Rightarrow> allocation_table
     \<Rightarrow> slot_req list \<Rightarrow> match_state \<Rightarrow> py_error + match_state" where
  "fill_required env rm tier sty cfg allocations [] st = Inr st"
| "fill_required env rm tier sty cfg allocations (sl # sls) st =
     (case fill_required_slot env rm tier sty cfg allocations sl st of
        Inl e \<Rightarrow> Inl e
      | Inr st' \<Rightarrow> fill_required env rm tier sty cfg allocations sls st')"

text \<open>
  The body of the loop over the optional slots, after the \<open>break\<close> test:
  \<open>continue\<close> below the floor of 15, else one query and at most one purchase.
\<close>

definition optional_slot_budget :: "rat \<Rightarrow> allocation_table \<Rightarrow> slot_req \<Rightarrow> match_state \<Rightarrow> rat" where
  "optional_slot_budget budget_eur allocations sl st =
     min (remaining_budget st * (4 / 10))
         (budget_eur * snd (optional_alloc allocations (slot_name sl)))"

definition optional_candidates ::
  "matcher_env \<Rightarrow> room \<Rightarrow> rat \<Rightarrow> string option \<Rightarrow> tier_config \<Rightarrow> allocation_table \<Rightarrow> slot_req
     \<Rightarrow> match_state \<Rightarrow> product list" where
  "optional_candidates env rm budget_eur sty cfg allocations sl st =
     query_supabase_for_matching (supabase_products env)
       (optional_query (categories sl) sty (optional_slot_budget budget_eur allocations sl st)
          (get_max_dimension_for_slot (slot_name sl) rm) cfg)"

definition fill_optional_slot ::
  "matcher_env \<Rightarrow> room \<Rightarrow> rat \<Rightarrow> string \<Rightarrow> string option \<Rightarrow> tier_config \<Rightarrow> allocation_table
     \<Rightarrow> slot_req \<Rightarrow> match_state \<Rightarrow> py_error + match_state" where
  "fill_optional_slot env rm budget_eur tier sty cfg allocations sl st =
     (let slot_budget = optional_slot_budget budget_eur allocations sl st in
      if slot_budget < 15 then Inr st
      else
        (let candidates = optional_candidates env rm budget_eur sty cfg allocations sl st
         in if candidates \<noteq> [] then
              (case rank_candidates candidates (slot_budget * (7 / 10)) tier of
                 Inl e \<Rightarrow> Inl e
               | Inr best \<Rightarrow> purchase env rm (slot_name sl) best st)
            else Inr st))"

fun fill_optional ::
  "matcher_env \<Rightarrow> room \<Rightarrow> rat \<Rightarrow> string \<Rightarrow> string option \<Rightarrow> tier_config \<Rightarrow> allocation_table
     \<Rightarrow> slot_req list \<Rightarrow> match_state \<Rightarrow> py_error + match_state" where
  "fill_optional env rm budget_eur tier sty cfg allocations [] st = Inr st"
| "fill_optional env rm budget_eur tier sty cfg allocations (sl # sls) st =
     (if remaining_budget st \<le> 0 then Inr st
      else
        (case fill_optional_slot env rm budget_eur tier sty cfg allocations sl st of
           Inl e \<Rightarrow> Inl e
         | Inr st' \<Rightarrow> fill_optional env rm budget_eur tier sty cfg allocations sls st'))"

text \<open>The returned dictionary.\<close>

record render_ref =
  ref_slot :: string
  r2_key :: "string option"
  r2_url :: string
  ref_visual_description :: "string option"
  ref_width_cm :: "rat option"
  ref_height_cm :: "rat option"
  ref_depth_cm :: "rat option"
  ref_proportion_w_h :: "rat option"
  ref_proportion_w_d :: "rat option"
  ref_color :: "string option"
  ref_primary_material :: "string option"

record buy_link =
  link_name :: string
  link_price :: "rat option"
  link_currency :: "string option"
  url :: "string option"
  source :: "string option"
  image_url :: string

record match_result =
  res_room :: room
  res_tier :: string
  res_style :: "string option"
  budget_total :: rat
  budget_spent :: rat
  budget_remaining :: rat
  budget_utilization_pct :: rat
  products :: "matched_item list"
  product_count :: nat
  product_images_for_render :: "render_ref list"
  buy_links :: "buy_link list"

definition render_ref_of :: "matcher_env \<Rightarrow> matched_item \<Rightarrow> render_ref" where
  "render_ref_of env p =
     \<lparr>ref_slot = slot p,
      r2_key = r2_main_image_key (product p),
      r2_url = get_image_url env (r2_main_image_key (product p)),
      ref_visual_description = visual_description (product p),
      ref_width_cm = width_cm (product p),
      ref_height_cm = height_cm (product p),
      ref_depth_cm = depth_cm (product p),
      ref_proportion_w_h = proportion_w_h (product p),
      ref_proportion_w_d = proportion_w_d (product p),
      ref_color = color (product p),
      ref_primary_material = primary_material (product p)\<rparr>"

definition buy_link_of :: "matcher_env \<Rightarrow> matched_item \<Rightarrow> buy_link" where
  "buy_link_of env p =
     \<lparr>link_name = name (product p),
      link_price = price (product p),
      link_currency = currency (product p),
      url = product_url (product p),
      source = source_domain (product p),
      image_url = get_image_url env (r2_main_image_key (product p))\<rparr>"

text \<open>
  Step 3. \<open>total_spent / budget_eur\<close> raises \<open>ZeroDivisionError\<close> when the budget is zero.
\<close>

definition build_result ::
  "matcher_env \<Rightarrow> room \<Rightarrow> rat \<Rightarrow> string \<Rightarrow> string option \<Rightarrow> match_state
     \<Rightarrow> py_error + match_result" where
  "build_result env rm budget_eur tier sty st =
     (if budget_eur = 0 then Inl ZeroDivisionError
      else
        Inr \<lparr>res_room = rm,
             res_tier = tier,
             res_style = sty,
             budget_total = budget_eur,
             budget_spent = py_round (total_spent st) 2,
             budget_remaining = py_round (remaining_budget st) 2,
             budget_utilization_pct = py_round (total_spent st / budget_eur * 100) 1,
             products = selected_products st,
             product_count = length (selected_products st),
             product_images_for_render =
               map (render_ref_of env)
                 (filter (\<lambda>p. truthy_str (r2_main_image_key (product p)))
                    (selected_products st)),
             buy_links = map (buy_link_of env) (selected_products st)\<rparr>)"

text \<open>
  \<open>BUDGET_TIERS[tier]\<close> raises \<open>KeyError\<close> on an unknown tier; the two other tables are
  read with \<open>.get(room_type, {})\<close>, and an absent \<open>"required"\<close> or \<open>"optional"\<close> list is empty.
\<close>

definition allocations_of :: "string \<Rightarrow> allocation_table" where
  "allocations_of rt = (case map_of ROOM_BUDGET_ALLOCATION rt of Some a \<Rightarrow> a | None \<Rightarrow> [])"

definition requirements_of :: "string \<Rightarrow> room_requirements" where
  "requirements_of rt =
     (case map_of ROOM_FURNITURE_REQUIREMENTS rt of
        Some r \<Rightarrow> r
      | None \<Rightarrow> \<lparr>required = [], optional = []\<rparr>)"

definition initial_state :: "rat \<Rightarrow> match_state" where
  "initial_state budget_eur =
     \<lparr>selected_products = [], total_spent = 0, remaining_budget = budget_eur\<rparr>"

definition match_furniture_for_room ::
  "matcher_env \<Rightarrow> room \<Rightarrow> rat \<Rightarrow> string \<Rightarrow> string option \<Rightarrow> py_error + match_result" where
  "match_furniture_for_room env rm budget_eur tier sty =
     (case map_of BUDGET_TIERS tier of
        None \<Rightarrow> Inl KeyError
      | Some tier_config \<Rightarrow>
          (let allocations = allocations_of (rtype rm);
               requirements = requirements_of (rtype rm)
           in case fill_required env rm tier sty tier_config allocations
                     (required requirements) (initial_state budget_eur) of
                Inl e \<Rightarrow> Inl e
              | Inr st1 \<Rightarrow>
                  (case fill_optional env rm budget_eur tier sty tier_config allocations
                          (optional requirements) st1 of
                     Inl e \<Rightarrow> Inl e
                   | Inr st2 \<Rightarrow> build_result env rm budget_eur tier sty st2)))"

subsection \<open>Double arithmetic\<close>

text \<open>
  The budget distribution computes its amounts in Python floats, which are IEEE 754
  binary64 numbers. A finite double is modelled by its exact rational value, and every
  operation rounds the exact result to the nearest double, ties to the even significand:
  53 significant bits, exponents from -1022 (below it the subnormal spacing of \<open>2^-1074\<close>)
  to 1023. A result that rounds to \<open>2^1024\<close> or beyond is an infinity in Python; the model
  has no infinities and not-a-numbers and answers \<open>None\<close> there.
\<close>

definition two_pow :: "int \<Rightarrow> rat" where
  "two_pow k = (if 0 \<le> k then 2 ^ nat k else 1 / 2 ^ nat (- k))"









subsection \<open>distribute_budget_across_rooms\<close>









subsection \<open>Notions used in the statements\<close>

text \<open>
  The price of a selected item (a selected product always has one, see
  \<open>required_candidates_price\<close> and \<open>optional_candidates_price\<close>) and the exact sum of the
  prices of a list of items.
\<close>

definition item_price :: "matched_item \<Rightarrow> rat" where
  "item_price it = (case price (product it) of Some p \<Rightarrow> p | None \<Rightarrow> 0)"

definition spent_sum :: "matched_item list \<Rightarrow> rat" where
  "spent_sum items = sum_list (map item_price items)"

text \<open>The loop invariant of the two accumulators, for a call with budget \<open>b\<close>.\<close>

definition accounted :: "rat \<Rightarrow> match_state \<Rightarrow> bool" where
  "accounted b st =
     (total_spent st = spent_sum (selected_products st)
      \<and> remaining_budget st = b - total_spent st)"

text \<open>The item appended for a winner, and the state after \<open>n\<close> purchases of it.\<close>

definition bought :: "matcher_env \<Rightarrow> room \<Rightarrow> string \<Rightarrow> product \<Rightarrow> matched_item" where
  "bought env rm sname best =
     \<lparr>slot = sname, product = best, quantity = 1,
      placement = get_placement_for_slot env sname rm\<rparr>"

definition after_purchases :: "nat \<Rightarrow> matched_item \<Rightarrow> rat \<Rightarrow> match_state \<Rightarrow> match_state" where
  "after_purchases n it p st =
     st\<lparr>selected_products := selected_products st @ replicate n it,
        total_spent := total_spent st + of_nat n * p,
        remaining_budget := remaining_budget st - of_nat n * p\<rparr>"

text \<open>
  The score of section 4.4 as the specification's signal table words it: a signal counts
  when its value is present (not null) and its condition holds; the ratio
  \<open>price / target\<close> needs a price.
\<close>

definition spec_table_score :: "product \<Rightarrow> rat \<Rightarrow> string \<Rightarrow> int" where
  "spec_table_score c target_price tier =
     (case price c of
        None \<Rightarrow> 0
      | Some p \<Rightarrow>
          (let r = p / target_price in
             (if 6 / 10 \<le> r \<and> r \<le> 11 / 10 then 30
              else if 4 / 10 \<le> r \<and> r \<le> 13 / 10 then 15
              else 0)
             + (if tier = ''luxury'' \<and> 8 / 10 < r then 10 else 0)))
     + (if r2_main_image_key c \<noteq> None then 25 else 0)
     + (if dimensions_source c \<in> {Some ''website_verified'', Some ''ai_estimated''} then 20
        else if width_cm c \<noteq> None then 10
        else 0)
     + (case visual_description c of None \<Rightarrow> 0 | Some d \<Rightarrow> if d \<noteq> [] then 15 else 0)
     + (if proportion_w_h c \<noteq> None then 15 else 0)
     + (case luxury_score c of
          None \<Rightarrow> 0
        | Some l \<Rightarrow>
            if tier = ''luxury'' \<and> 7 / 10 < l then 15
            else if tier = ''budget'' \<and> l < 3 / 10 then 10
            else if tier \<in> {''standard'', ''premium''} \<and> 3 / 10 \<le> l \<and> l \<le> 7 / 10 then 10
            else 0)
     + (case rating c of None \<Rightarrow> 0 | Some r \<Rightarrow> if 4 \<le> r then 10 else 0)"

text \<open>Facts of the static tables that the loops rely on.\<close>

definition fractions_ok :: "allocation_table \<Rightarrow> bool" where
  "fractions_ok al = list_all (\<lambda>kv. 0 < snd (snd kv) \<and> snd (snd kv) < 1) al"

definition quantities_ok :: "slot_req list \<Rightarrow> bool" where
  "quantities_ok sls = list_all (\<lambda>sl. 0 < resolve_quantity (req_quantity sl)) sls"





text \<open>The slot names of the items selected so far, and a room whose slot names differ.\<close>

definition slots_of :: "match_state \<Rightarrow> string set" where
  "slots_of st = set (map slot (selected_products st))"

definition slot_names_distinct :: "room_requirements \<Rightarrow> bool" where
  "slot_names_distinct r = distinct (map slot_name (required r @ optional r))"

text \<open>The result when nothing is bought.\<close>

definition unfurnished :: "room \<Rightarrow> rat \<Rightarrow> string \<Rightarrow> string option \<Rightarrow> match_result" where
  "unfurnished rm b tier sty =
     \<lparr>res_room = rm,
      res_tier = tier,
      res_style = sty,
      budget_total = b,
      budget_spent = 0,
      budget_remaining = py_round b 2,
      budget_utilization_pct = 0,
      products = [],
      product_count = 0,
      product_images_for_render = [],
      buy_links = []\<rparr>"


subsection \<open>Sample data\<close>

definition sample_sofa :: product where
  "sample_sofa =
     \<lparr>name = ''Sofa'', price = Some 200, currency = Some ''EUR'', category = Some ''sofa'',
      subcategory = None, room_type = Some ''Living Room'', style = None,
      width_cm = Some 200, height_cm = Some 80, depth_cm = Some 90,
      dimensions_source = Some ''ai_estimated'', proportion_w_h = Some (5 / 2),
      proportion_w_d = Some 2, visual_description = Some ''grey sofa'',
      luxury_score = Some (1 / 2), image_usable = True, primary_material = None,
      color = None, r2_main_image_key = Some ''products/sofa.jpg'', in_stock = True,
      rating = Some 4, product_url = Some ''https://ikea.bg/sofa'',
      source_domain = Some ''ikea.bg''\<rparr>"

definition zero_luxury_sofa :: product where
  "zero_luxury_sofa = sample_sofa\<lparr>name := ''Plain sofa'', luxury_score := Some 0\<rparr>"

text \<open>Two sofas that differ in their name only, and a sofa with a rating of its own.\<close>

definition sofa_a :: product where
  "sofa_a = sample_sofa\<lparr>name := ''Sofa A''\<rparr>"

definition sofa_b :: product where
  "sofa_b = sample_sofa\<lparr>name := ''Sofa B''\<rparr>"



definition sample_env :: "product list \<Rightarrow> matcher_env" where
  "sample_env tbl =
     \<lparr>supabase_products = tbl,
      get_placement_for_slot = (\<lambda>sname rm. ''floor''),
      R2_PUBLIC_URL = ''https://pub-xxx.r2.dev''\<rparr>"

definition sample_room :: "string \<Rightarrow> string \<Rightarrow> rat \<Rightarrow> room" where
  "sample_room rid rt area =
     \<lparr>room_id = rid, rtype = rt, estimated_width_cm = 450, estimated_depth_cm = 380,
      estimated_area_sqm = Some area, usable_walls = []\<rparr>"

definition sample_living_room :: room where
  "sample_living_room = sample_room ''room_1'' ''living room'' (171 / 10)"

text \<open>The result of furnishing the sample living room from a catalog of one sofa.\<close>

definition sample_result :: match_result where
  "sample_result =
     \<lparr>res_room = sample_living_room,
      res_tier = ''standard'',
      res_style = None,
      budget_total = 1000,
      budget_spent = 200,
      budget_remaining = 800,
      budget_utilization_pct = 20,
      products = [bought (sample_env [sample_sofa]) sample_living_room ''sofa'' sample_sofa],
      product_count = 1,
      product_images_for_render =
        [render_ref_of (sample_env [sample_sofa])
           (bought (sample_env [sample_sofa]) sample_living_room ''sofa'' sample_sofa)],
      buy_links =
        [buy_link_of (sample_env [sample_sofa])
           (bought (sample_env [sample_sofa]) sample_living_room ''sofa'' sample_sofa)]\<rparr>"


definition sample_garage :: room where
  "sample_garage = sample_room ''room_2'' ''garage'' 18"

text \<open>Slots and the tier of the static tables, by name.\<close>

definition sofa_slot :: slot_req where
  "sofa_slot =
     \<lparr>slot_name = ''sofa'', categories = [''sofa'', ''corner sofa'', ''sofa bed''],
      req_quantity = Fixed 1\<rparr>"

definition coffee_table_slot :: slot_req where
  "coffee_table_slot =
     \<lparr>slot_name = ''coffee_table'', categories = [''coffee table'', ''table''],
      req_quantity = Fixed 1\<rparr>"


definition standard_tier :: tier_config where
  "standard_tier =
     \<lparr>per_sqm_eur = (60, 150),
      preferred_sources = [''videnov.bg'', ''ikea.bg'', ''aiko-bg.com''],
      max_single_item_pct = 30 / 100,
      style_keywords = [''modern'', ''scandinavian'', ''contemporary'']\<rparr>"

text \<open>The state after the sofa of the sample run is bought.\<close>

definition after_sofa :: match_state where
  "after_sofa =
     after_purchases 1 (bought (sample_env [sample_sofa]) sample_living_room ''sofa'' sample_sofa)
       200 (initial_state 1000)"







section \<open>Properties\<close>

subsection \<open>Ranking\<close>

lemma sort_key_not_Nil: "xs \<noteq> [] \<Longrightarrow> sort_key f xs \<noteq> []"
  using length_sort [of f xs] by (metis length_0_conv)

lemma hd_insort_key:
  "hd (insort_key f x ys) = (if ys = [] \<or> f x \<le> f (hd ys) then x else hd ys)"
  by (cases ys) auto

lemma sort_key_Cons: "sort_key f (x # xs) = insort_key f x (sort_key f xs)"
  by (simp add: sort_key_def)

lemma hd_sort_key_first_min:
  fixes f :: "'a \<Rightarrow> int"
  assumes "xs \<noteq> []"
  shows "\<exists>i < length xs. hd (sort_key f xs) = xs ! i
           \<and> (\<forall>y \<in> set xs. f (xs ! i) \<le> f y)
           \<and> (\<forall>j < i. f (xs ! i) < f (xs ! j))"
  using assms
proof (induction xs)
  case Nil
  then show ?case by simp
next
  case (Cons x xs)
  show ?case
  proof (cases "xs = []")
    case True
    then show ?thesis by simp
  next
    case False
    from Cons.IH [OF False] obtain i where i: "i < length xs"
      and h: "hd (sort_key f xs) = xs ! i"
      and mn: "\<forall>y \<in> set xs. f (xs ! i) \<le> f y"
      and fst: "\<forall>j < i. f (xs ! i) < f (xs ! j)" by blast
    have ne: "sort_key f xs \<noteq> []" using False by (rule sort_key_not_Nil)
    show ?thesis
    proof (cases "f x \<le> f (xs ! i)")
      case True
      have "hd (sort_key f (x # xs)) = x"
        using True h ne by (simp add: sort_key_Cons hd_insort_key)
      moreover have "\<forall>y \<in> set (x # xs). f x \<le> f y" using True mn by auto
      ultimately show ?thesis by (intro exI [of _ 0]) simp
    next
      case F2: False
      have "hd (sort_key f (x # xs)) = xs ! i"
        using F2 h ne by (simp add: sort_key_Cons hd_insort_key)
      moreover have "\<forall>y \<in> set (x # xs). f (xs ! i) \<le> f y" using F2 mn by auto
      moreover have "\<forall>j < Suc i. f (xs ! i) < f ((x # xs) ! j)"
        using F2 fst by (auto simp: less_Suc_eq_0_disj)
      ultimately show ?thesis using i by (intro exI [of _ "Suc i"]) simp
    qed
  qed
qed

lemma rank_candidates_first_max:
  assumes "candidates \<noteq> []"
  shows "\<exists>i < length candidates.
           rank_candidates candidates target_price tier = Inr (candidates ! i)
           \<and> (\<forall>c \<in> set candidates. score c target_price tier \<le> score (candidates ! i) target_price tier)
           \<and> (\<forall>j < i. score (candidates ! j) target_price tier < score (candidates ! i) target_price tier)"
proof -
  let ?sc = "map (\<lambda>c. (score c target_price tier, c)) candidates"
  have ne: "?sc \<noteq> []" using assms by simp
  from hd_sort_key_first_min [OF ne, of "\<lambda>x. - fst x"]
  obtain i where i: "i < length ?sc"
    and h: "hd (sort_key (\<lambda>x. - fst x) ?sc) = ?sc ! i"
    and mn: "\<forall>y \<in> set ?sc. - fst (?sc ! i) \<le> - fst y"
    and fs: "\<forall>j < i. - fst (?sc ! i) < - fst (?sc ! j)" by blast
  have sne: "sort_key (\<lambda>x. - fst x) ?sc \<noteq> []" using ne by (rule sort_key_not_Nil)
  have "rank_candidates candidates target_price tier = Inr (snd (hd (sort_key (\<lambda>x. - fst x) ?sc)))"
    using sne by (simp add: rank_candidates_def Let_def split: list.splits)
  then have r: "rank_candidates candidates target_price tier = Inr (candidates ! i)"
    using h i by simp
  have m: "\<forall>c \<in> set candidates. score c target_price tier \<le> score (candidates ! i) target_price tier"
    using mn i by auto
  have f: "\<forall>j < i. score (candidates ! j) target_price tier < score (candidates ! i) target_price tier"
    using fs i by auto
  show ?thesis using r m f i by auto
qed

lemma rank_candidates_member:
  assumes "candidates \<noteq> []"
  shows "\<exists>c \<in> set candidates. rank_candidates candidates target_price tier = Inr c"
  using rank_candidates_first_max [OF assms, of target_price tier] by (meson nth_mem)

subsection \<open>The query\<close>

lemma set_order_by_rating_desc: "set (order_by_rating_desc rows) = set rows"
  by (auto simp: order_by_rating_desc_def)

lemma query_result_matches:
  assumes "c \<in> set (query_supabase_for_matching tbl q)"
  shows "c \<in> set tbl \<and> row_matches q c"
proof -
  have "c \<in> set (order_by_rating_desc (filter (row_matches q) tbl))"
    using assms unfolding query_supabase_for_matching_def by (rule in_set_takeD)
  then show ?thesis by (simp add: set_order_by_rating_desc)
qed

lemma row_matches_min_price:
  "row_matches q c \<Longrightarrow> q_min_price q = Some lo \<Longrightarrow> \<exists>p. price c = Some p \<and> lo \<le> p"
  by (auto simp: row_matches_def split: option.splits)

lemma row_matches_max_price:
  "row_matches q c \<Longrightarrow> q_max_price q = Some hi \<Longrightarrow> \<exists>p. price c = Some p \<and> p \<le> hi"
  by (auto simp: row_matches_def split: option.splits)

lemma required_candidates_price:
  assumes "c \<in> set (required_candidates env rm sty cfg al sl st)"
  shows "c \<in> set (supabase_products env)
         \<and> (\<exists>p. price c = Some p \<and> per_item_budget_of al sl st * (3 / 10) \<le> p
                \<and> p \<le> per_item_budget_of al sl st)"
proof -
  let ?q = "required_query (categories sl) (rtype rm) sty (per_item_budget_of al sl st)
          (get_max_dimension_for_slot (slot_name sl) rm) cfg"
  have m: "c \<in> set (supabase_products env) \<and> row_matches ?q c"
    using assms unfolding required_candidates_def by (rule query_result_matches)
  have lo: "q_min_price ?q = Some (per_item_budget_of al sl st * (3 / 10))"
    by (simp add: required_query_def)
  have hi: "q_max_price ?q = Some (per_item_budget_of al sl st)"
    by (simp add: required_query_def)
  from row_matches_min_price [OF conjunct2 [OF m] lo] row_matches_max_price [OF conjunct2 [OF m] hi] m
  show ?thesis by auto
qed

lemma optional_candidates_price:
  assumes "c \<in> set (optional_candidates env rm b sty cfg al sl st)"
  shows "c \<in> set (supabase_products env)
         \<and> (\<exists>p. price c = Some p \<and> p \<le> optional_slot_budget b al sl st)"
proof -
  let ?q = "optional_query (categories sl) sty (optional_slot_budget b al sl st)
          (get_max_dimension_for_slot (slot_name sl) rm) cfg"
  have m: "c \<in> set (supabase_products env) \<and> row_matches ?q c"
    using assms unfolding optional_candidates_def by (rule query_result_matches)
  have hi: "q_max_price ?q = Some (optional_slot_budget b al sl st)"
    by (simp add: optional_query_def)
  from row_matches_max_price [OF conjunct2 [OF m] hi] m
  show ?thesis by auto
qed

subsection \<open>Purchases\<close>

lemma purchase_Some:
  "price best = Some p \<Longrightarrow>
   purchase env rm sname best st =
     Inr (st\<lparr>selected_products := selected_products st
                 @ [\<lparr>slot = sname, product = best, quantity = 1,
                     placement = get_placement_for_slot env sname rm\<rparr>],
              total_spent := total_spent st + p,
              remaining_budget := remaining_budget st - p\<rparr>)"
  by (simp add: purchase_def)

lemma purchase_units_Some:
  "price best = Some p \<Longrightarrow>
   purchase_units n env rm sname best st =
     Inr (st\<lparr>selected_products := selected_products st
                 @ replicate n \<lparr>slot = sname, product = best, quantity = 1,
                                placement = get_placement_for_slot env sname rm\<rparr>,
              total_spent := total_spent st + of_nat n * p,
              remaining_budget := remaining_budget st - of_nat n * p\<rparr>)"
proof (induction n arbitrary: st)
  case 0
  then show ?case by simp
next
  case (Suc n)
  show ?case
    by (simp add: purchase_Some [OF Suc.prems] Suc.IH [OF Suc.prems] replicate_app_Cons_same algebra_simps)
qed

lemma spent_sum_append: "spent_sum (xs @ ys) = spent_sum xs + spent_sum ys"
  by (simp add: spent_sum_def)

lemma spent_sum_replicate: "spent_sum (replicate n it) = of_nat n * item_price it"
  by (induction n) (simp_all add: spent_sum_def algebra_simps)

lemma purchase_units_after:
  "price best = Some p \<Longrightarrow>
   purchase_units n env rm sname best st = Inr (after_purchases n (bought env rm sname best) p st)"
  by (simp add: purchase_units_Some after_purchases_def bought_def)

lemma purchase_after:
  "price best = Some p \<Longrightarrow>
   purchase env rm sname best st = Inr (after_purchases 1 (bought env rm sname best) p st)"
  by (simp add: purchase_Some after_purchases_def bought_def)

lemma fill_required_slot_Inr:
  assumes "fill_required_slot env rm tier sty cfg al sl st = Inr st'"
  shows "(required_candidates env rm sty cfg al sl st = [] \<and> st' = st)
       \<or> (\<exists>best p. best \<in> set (required_candidates env rm sty cfg al sl st)
             \<and> price best = Some p
             \<and> st' = after_purchases (nat (resolve_quantity (req_quantity sl)))
                      (bought env rm (slot_name sl) best) p st)"
proof (cases "required_candidates env rm sty cfg al sl st = []")
  case True
  then show ?thesis using assms
    by (simp add: fill_required_slot_def Let_def split: if_splits)
next
  case False
  from rank_candidates_member [OF False, of "per_item_budget_of al sl st" tier]
  obtain best where b: "best \<in> set (required_candidates env rm sty cfg al sl st)"
    and r: "rank_candidates (required_candidates env rm sty cfg al sl st)
              (per_item_budget_of al sl st) tier = Inr best" by blast
  from required_candidates_price [OF b] obtain p where p: "price best = Some p" by blast
  have "st' = after_purchases (nat (resolve_quantity (req_quantity sl)))
                (bought env rm (slot_name sl) best) p st"
    using assms False r purchase_units_after [OF p]
    by (simp add: fill_required_slot_def Let_def split: if_splits)
  then show ?thesis using b p by blast
qed

lemma fill_required_slot_returns:
  assumes "resolve_quantity (req_quantity sl) \<noteq> 0"
  shows "\<exists>st'. fill_required_slot env rm tier sty cfg al sl st = Inr st'"
proof (cases "required_candidates env rm sty cfg al sl st = []")
  case True
  then show ?thesis using assms by (simp add: fill_required_slot_def Let_def)
next
  case False
  from rank_candidates_member [OF False, of "per_item_budget_of al sl st" tier]
  obtain best where b: "best \<in> set (required_candidates env rm sty cfg al sl st)"
    and r: "rank_candidates (required_candidates env rm sty cfg al sl st)
              (per_item_budget_of al sl st) tier = Inr best" by blast
  from required_candidates_price [OF b] obtain p where p: "price best = Some p" by blast
  show ?thesis
    using assms False r purchase_units_after [OF p]
    by (simp add: fill_required_slot_def Let_def)
qed

lemma fill_optional_slot_Inr:
  assumes "fill_optional_slot env rm b tier sty cfg al sl st = Inr st'"
  shows "((optional_slot_budget b al sl st < 15
            \<or> optional_candidates env rm b sty cfg al sl st = []) \<and> st' = st)
       \<or> (15 \<le> optional_slot_budget b al sl st
           \<and> (\<exists>best p. best \<in> set (optional_candidates env rm b sty cfg al sl st)
                 \<and> price best = Some p
                 \<and> st' = after_purchases 1 (bought env rm (slot_name sl) best) p st))"
proof (cases "optional_slot_budget b al sl st < 15 \<or> optional_candidates env rm b sty cfg al sl st = []")
  case True
  then show ?thesis using assms
    by (auto simp: fill_optional_slot_def Let_def split: if_splits)
next
  case False
  then have ne: "optional_candidates env rm b sty cfg al sl st \<noteq> []"
    and ge: "15 \<le> optional_slot_budget b al sl st" by auto
  from rank_candidates_member [OF ne, of "optional_slot_budget b al sl st * (7 / 10)" tier]
  obtain best where bm: "best \<in> set (optional_candidates env rm b sty cfg al sl st)"
    and r: "rank_candidates (optional_candidates env rm b sty cfg al sl st)
              (optional_slot_budget b al sl st * (7 / 10)) tier = Inr best" by blast
  from optional_candidates_price [OF bm] obtain p where p: "price best = Some p" by blast
  have "st' = after_purchases 1 (bought env rm (slot_name sl) best) p st"
    using assms ne ge r purchase_after [OF p]
    by (simp add: fill_optional_slot_def Let_def split: if_splits)
  then show ?thesis using bm p ge by blast
qed

lemma fill_optional_slot_returns:
  "\<exists>st'. fill_optional_slot env rm b tier sty cfg al sl st = Inr st'"
proof (cases "optional_slot_budget b al sl st < 15 \<or> optional_candidates env rm b sty cfg al sl st = []")
  case True
  then show ?thesis by (auto simp: fill_optional_slot_def Let_def)
next
  case False
  then have ne: "optional_candidates env rm b sty cfg al sl st \<noteq> []"
    and ge: "15 \<le> optional_slot_budget b al sl st" by auto
  from rank_candidates_member [OF ne, of "optional_slot_budget b al sl st * (7 / 10)" tier]
  obtain best where bm: "best \<in> set (optional_candidates env rm b sty cfg al sl st)"
    and r: "rank_candidates (optional_candidates env rm b sty cfg al sl st)
              (optional_slot_budget b al sl st * (7 / 10)) tier = Inr best" by blast
  from optional_candidates_price [OF bm] obtain p where p: "price best = Some p" by blast
  show ?thesis
    using ne ge r purchase_after [OF p]
    by (simp add: fill_optional_slot_def Let_def)
qed

lemma fill_required_returns:
  assumes "\<forall>sl \<in> set sls. resolve_quantity (req_quantity sl) \<noteq> 0"
  shows "\<exists>st'. fill_required env rm tier sty cfg al sls st = Inr st'"
  using assms
proof (induction sls arbitrary: st)
  case Nil
  then show ?case by simp
next
  case (Cons sl sls)
  from Cons.prems have q: "resolve_quantity (req_quantity sl) \<noteq> 0" by simp
  from fill_required_slot_returns [OF q] obtain st1
    where s: "fill_required_slot env rm tier sty cfg al sl st = Inr st1" by blast
  from Cons.IH [of st1] Cons.prems obtain st2
    where "fill_required env rm tier sty cfg al sls st1 = Inr st2" by auto
  then show ?case using s by simp
qed

lemma fill_optional_returns:
  "\<exists>st'. fill_optional env rm b tier sty cfg al sls st = Inr st'"
proof (induction sls arbitrary: st)
  case Nil
  then show ?case by simp
next
  case (Cons sl sls)
  from fill_optional_slot_returns obtain st1
    where s: "fill_optional_slot env rm b tier sty cfg al sl st = Inr st1" by blast
  from Cons.IH [of st1] obtain st2
    where "fill_optional env rm b tier sty cfg al sls st1 = Inr st2" by auto
  then show ?case using s by simp
qed

subsection \<open>The accounting invariant\<close>

lemma spent_sum_bought: "price best = Some p \<Longrightarrow> item_price (bought env rm sname best) = p"
  by (simp add: item_price_def bought_def)

lemma accounted_after_purchases:
  assumes "accounted b st" and "item_price it = p"
  shows "accounted b (after_purchases n it p st)"
  using assms
  by (simp add: accounted_def after_purchases_def spent_sum_append spent_sum_replicate)

lemma accounted_initial: "accounted b (initial_state b)"
  by (simp add: accounted_def initial_state_def spent_sum_def)

lemma fill_required_slot_accounted:
  assumes "fill_required_slot env rm tier sty cfg al sl st = Inr st'" and "accounted b st"
  shows "accounted b st'"
  using fill_required_slot_Inr [OF assms(1)] assms(2)
  by (auto intro!: accounted_after_purchases simp: spent_sum_bought)

lemma fill_optional_slot_accounted:
  assumes "fill_optional_slot env rm b0 tier sty cfg al sl st = Inr st'" and "accounted b st"
  shows "accounted b st'"
  using fill_optional_slot_Inr [OF assms(1)] assms(2)
  by (auto intro!: accounted_after_purchases simp: spent_sum_bought)

lemma fill_required_accounted:
  assumes "fill_required env rm tier sty cfg al sls st = Inr st'" and "accounted b st"
  shows "accounted b st'"
  using assms
proof (induction sls arbitrary: st)
  case Nil
  then show ?case by simp
next
  case (Cons sl sls)
  from Cons.prems(1) obtain st1
    where s1: "fill_required_slot env rm tier sty cfg al sl st = Inr st1"
      and s2: "fill_required env rm tier sty cfg al sls st1 = Inr st'"
    by (auto split: sum.splits)
  from Cons.IH [OF s2 fill_required_slot_accounted [OF s1 Cons.prems(2)]]
  show ?case .
qed

lemma fill_optional_accounted:
  assumes "fill_optional env rm b0 tier sty cfg al sls st = Inr st'" and "accounted b st"
  shows "accounted b st'"
  using assms
proof (induction sls arbitrary: st)
  case Nil
  then show ?case by simp
next
  case (Cons sl sls)
  show ?case
  proof (cases "remaining_budget st \<le> 0")
    case True
    then show ?thesis using Cons.prems by simp
  next
    case False
    with Cons.prems(1) obtain st1
      where s1: "fill_optional_slot env rm b0 tier sty cfg al sl st = Inr st1"
        and s2: "fill_optional env rm b0 tier sty cfg al sls st1 = Inr st'"
      by (auto split: sum.splits)
    from Cons.IH [OF s2 fill_optional_slot_accounted [OF s1 Cons.prems(2)]]
    show ?thesis .
  qed
qed

text \<open>A returned result comes from a final state of the two loops.\<close>

lemma match_furniture_for_room_Inr:
  assumes "match_furniture_for_room env rm b tier sty = Inr res"
  shows "\<exists>cfg st1 st2.
           map_of BUDGET_TIERS tier = Some cfg
         \<and> fill_required env rm tier sty cfg (allocations_of (rtype rm))
              (required (requirements_of (rtype rm))) (initial_state b) = Inr st1
         \<and> fill_optional env rm b tier sty cfg (allocations_of (rtype rm))
              (optional (requirements_of (rtype rm))) st1 = Inr st2
         \<and> b \<noteq> 0
         \<and> build_result env rm b tier sty st2 = Inr res"
  using assms
  by (auto simp: match_furniture_for_room_def Let_def build_result_def
           split: option.splits sum.splits if_splits)

lemma build_result_fields:
  assumes "build_result env rm b tier sty st = Inr res"
  shows "budget_total res = b \<and> budget_spent res = py_round (total_spent st) 2
       \<and> budget_remaining res = py_round (remaining_budget st) 2
       \<and> products res = selected_products st"
  using assms by (auto simp: build_result_def split: if_splits)

lemma match_final_state:
  assumes "match_furniture_for_room env rm b tier sty = Inr res"
  shows "\<exists>st. accounted b st \<and> budget_total res = b
            \<and> budget_spent res = py_round (total_spent st) 2
            \<and> budget_remaining res = py_round (remaining_budget st) 2
            \<and> products res = selected_products st"
proof -
  from match_furniture_for_room_Inr [OF assms] obtain cfg st1 st2 where
    r: "fill_required env rm tier sty cfg (allocations_of (rtype rm))
              (required (requirements_of (rtype rm))) (initial_state b) = Inr st1"
    and o: "fill_optional env rm b tier sty cfg (allocations_of (rtype rm))
              (optional (requirements_of (rtype rm))) st1 = Inr st2"
    and br: "build_result env rm b tier sty st2 = Inr res" by blast
  have "accounted b st2"
    using fill_optional_accounted [OF o fill_required_accounted [OF r accounted_initial]] .
  then show ?thesis using build_result_fields [OF br] by blast
qed

subsection \<open>Facts of the static tables\<close>

lemma ROOM_BUDGET_ALLOCATION_fractions:
  "list_all (\<lambda>kv. fractions_ok (snd kv)) ROOM_BUDGET_ALLOCATION"
  by (simp add: ROOM_BUDGET_ALLOCATION_def fractions_ok_def)

lemma allocations_of_fractions: "fractions_ok (allocations_of rt)"
proof (cases "map_of ROOM_BUDGET_ALLOCATION rt")
  case None
  then show ?thesis by (simp add: allocations_of_def fractions_ok_def)
next
  case (Some al)
  then have "(rt, al) \<in> set ROOM_BUDGET_ALLOCATION" by (rule map_of_SomeD)
  then have "fractions_ok al"
    using ROOM_BUDGET_ALLOCATION_fractions by (auto simp: list_all_iff)
  then show ?thesis using Some by (simp add: allocations_of_def)
qed

lemma fractions_ok_lookup:
  assumes "fractions_ok al" and "map_of al k = Some a"
  shows "0 < snd a \<and> snd a < 1"
proof -
  from assms(2) have "(k, a) \<in> set al" by (rule map_of_SomeD)
  then show ?thesis using assms(1) by (auto simp: fractions_ok_def list_all_iff)
qed

lemma required_alloc_bounds:
  assumes "fractions_ok al"
  shows "0 < snd (required_alloc al s) \<and> snd (required_alloc al s) < 1"
  using fractions_ok_lookup [OF assms]
  by (auto simp: required_alloc_def split: option.splits)

lemma optional_alloc_bounds:
  assumes "fractions_ok al"
  shows "0 < snd (optional_alloc al s) \<and> snd (optional_alloc al s) < 1"
  using fractions_ok_lookup [OF assms]
  by (auto simp: optional_alloc_def split: option.splits)

lemma ROOM_FURNITURE_REQUIREMENTS_quantities:
  "list_all (\<lambda>kv. quantities_ok (required (snd kv))) ROOM_FURNITURE_REQUIREMENTS"
  by (simp add: ROOM_FURNITURE_REQUIREMENTS_def quantities_ok_def resolve_quantity_def)

lemma required_quantities_ok: "quantities_ok (required (requirements_of rt))"
proof (cases "map_of ROOM_FURNITURE_REQUIREMENTS rt")
  case None
  then show ?thesis by (simp add: requirements_of_def quantities_ok_def)
next
  case (Some r)
  then have "(rt, r) \<in> set ROOM_FURNITURE_REQUIREMENTS" by (rule map_of_SomeD)
  then have "quantities_ok (required r)"
    using ROOM_FURNITURE_REQUIREMENTS_quantities by (auto simp: list_all_iff)
  then show ?thesis using Some by (simp add: requirements_of_def)
qed

subsection \<open>Purchases are funded\<close>

text \<open>
  What a purchase sees: the item goes to the end of the list, and the remaining budget at
  that moment is the budget less the prices of the items before it.
\<close>

lemma purchase_sees_remaining:
  assumes "accounted b st" and "purchase env rm sname best st = Inr st'"
  shows "selected_products st' = selected_products st @ [bought env rm sname best]
       \<and> remaining_budget st
           = b - spent_sum (take (length (selected_products st)) (selected_products st'))"
  using assms
  by (auto simp: purchase_def accounted_def bought_def split: option.splits)














lemma py_round_zero: "py_round 0 n = 0"
  by (simp add: py_round_def)




subsection \<open>The budget fields of the result\<close>

lemma sample_run:
  "match_furniture_for_room (sample_env [sample_sofa]) sample_living_room 1000 ''standard'' None
     = Inr sample_result"
  by code_simp













subsection \<open>No purchase without budget\<close>



subsection \<open>Runs that return and runs that raise\<close>

lemma build_result_initial:
  "b \<noteq> 0 \<Longrightarrow> build_result env rm b tier sty (initial_state b) = Inr (unfurnished rm b tier sty)"
  by (simp add: build_result_def initial_state_def unfurnished_def py_round_zero)

lemma quantities_ok_nonzero:
  "quantities_ok sls \<Longrightarrow> \<forall>sl \<in> set sls. resolve_quantity (req_quantity sl) \<noteq> 0"
  by (auto simp: quantities_ok_def list_all_iff)

lemma match_furniture_for_room_returns:
  assumes "map_of BUDGET_TIERS tier = Some cfg" and "b \<noteq> 0"
  shows "\<exists>res. match_furniture_for_room env rm b tier sty = Inr res"
proof -
  from fill_required_returns [OF quantities_ok_nonzero [OF required_quantities_ok]]
  obtain st1 where r: "fill_required env rm tier sty cfg (allocations_of (rtype rm))
      (required (requirements_of (rtype rm))) (initial_state b) = Inr st1" by blast
  from fill_optional_returns
  obtain st2 where o: "fill_optional env rm b tier sty cfg (allocations_of (rtype rm))
      (optional (requirements_of (rtype rm))) st1 = Inr st2" by blast
  show ?thesis
    using assms r o by (simp add: match_furniture_for_room_def Let_def build_result_def)
qed

lemma match_furniture_for_room_zero_budget:
  assumes "map_of BUDGET_TIERS tier = Some cfg"
  shows "match_furniture_for_room env rm 0 tier sty = Inl ZeroDivisionError"
proof -
  from fill_required_returns [OF quantities_ok_nonzero [OF required_quantities_ok]]
  obtain st1 where r: "fill_required env rm tier sty cfg (allocations_of (rtype rm))
      (required (requirements_of (rtype rm))) (initial_state 0) = Inr st1" by blast
  from fill_optional_returns
  obtain st2 where o: "fill_optional env rm 0 tier sty cfg (allocations_of (rtype rm))
      (optional (requirements_of (rtype rm))) st1 = Inr st2" by blast
  show ?thesis
    using assms r o by (simp add: match_furniture_for_room_def Let_def build_result_def)
qed

text \<open>
  With nothing left, a required slot finds no candidate unless the catalog holds a product
  priced 0 (the data model has prices above 0).
\<close>

lemma fill_required_slot_exhausted:
  assumes step: "fill_required_slot env rm tier sty cfg al sl st = Inr st'"
    and rem: "remaining_budget st \<le> 0" and fr: "fractions_ok al"
    and q: "0 < resolve_quantity (req_quantity sl)"
    and nofree: "list_all (\<lambda>c. price c \<noteq> Some 0) (supabase_products env)"
  shows "st' = st"
proof -
  let ?frac = "snd (required_alloc al (slot_name sl))"
  let ?q = "resolve_quantity (req_quantity sl)"
  have pib: "per_item_budget_of al sl st = remaining_budget st * ?frac / of_int ?q"
    by (simp add: per_item_budget_of_def Let_def)
  from required_alloc_bounds [OF fr, of "slot_name sl"] have f0: "0 < ?frac" by auto
  have "remaining_budget st * ?frac \<le> 0" using rem f0 by (simp add: mult_le_0_iff)
  then have n: "per_item_budget_of al sl st \<le> 0"
    using q by (simp add: pib divide_le_0_iff)
  have "required_candidates env rm sty cfg al sl st = []"
  proof (rule ccontr)
    assume "required_candidates env rm sty cfg al sl st \<noteq> []"
    then obtain c where c: "c \<in> set (required_candidates env rm sty cfg al sl st)"
      by (cases "required_candidates env rm sty cfg al sl st") auto
    from required_candidates_price [OF c] obtain p
      where m: "c \<in> set (supabase_products env)" and p: "price c = Some p"
        and lo: "per_item_budget_of al sl st * (3 / 10) \<le> p"
        and hi: "p \<le> per_item_budget_of al sl st"
      by blast
    from lo hi n have "p = 0" by linarith
    then show False using nofree m p by (auto simp: list_all_iff)
  qed
  then show ?thesis using fill_required_slot_Inr [OF step] by auto
qed

lemma fill_required_exhausted:
  assumes "fill_required env rm tier sty cfg al sls st = Inr st'"
    and "remaining_budget st \<le> 0" and "fractions_ok al" and "quantities_ok sls"
    and "list_all (\<lambda>c. price c \<noteq> Some 0) (supabase_products env)"
  shows "st' = st"
  using assms
proof (induction sls arbitrary: st)
  case Nil
  then show ?case by simp
next
  case (Cons sl sls)
  from Cons.prems(1) obtain st1
    where s1: "fill_required_slot env rm tier sty cfg al sl st = Inr st1"
      and s2: "fill_required env rm tier sty cfg al sls st1 = Inr st'"
    by (auto split: sum.splits)
  from Cons.prems(4) have q: "0 < resolve_quantity (req_quantity sl)"
    and qs: "quantities_ok sls" by (simp_all add: quantities_ok_def)
  have e: "st1 = st"
    using fill_required_slot_exhausted [OF s1 Cons.prems(2,3) q Cons.prems(5)] .
  from Cons.IH [OF s2 [unfolded e] Cons.prems(2,3) qs Cons.prems(5)] show ?case .
qed

lemma nonpositive_budget_buys_nothing:
  assumes "b \<le> 0" and "list_all (\<lambda>c. price c \<noteq> Some 0) (supabase_products env)"
  shows "fill_required env rm tier sty cfg (allocations_of (rtype rm))
           (required (requirements_of (rtype rm))) (initial_state b) = Inr (initial_state b)
       \<and> fill_optional env rm b tier sty cfg (allocations_of (rtype rm))
           (optional (requirements_of (rtype rm))) (initial_state b) = Inr (initial_state b)"
proof -
  have rem: "remaining_budget (initial_state b) \<le> 0" using assms(1) by (simp add: initial_state_def)
  from fill_required_returns [OF quantities_ok_nonzero [OF required_quantities_ok]]
  obtain st1 where r: "fill_required env rm tier sty cfg (allocations_of (rtype rm))
      (required (requirements_of (rtype rm))) (initial_state b) = Inr st1" by blast
  have "st1 = initial_state b"
    using fill_required_exhausted [OF r rem allocations_of_fractions required_quantities_ok assms(2)] .
  then have 1: "fill_required env rm tier sty cfg (allocations_of (rtype rm))
      (required (requirements_of (rtype rm))) (initial_state b) = Inr (initial_state b)"
    using r by simp
  have 2: "fill_optional env rm b tier sty cfg (allocations_of (rtype rm))
           (optional (requirements_of (rtype rm))) (initial_state b) = Inr (initial_state b)"
    using rem by (cases "optional (requirements_of (rtype rm))") simp_all
  show ?thesis using 1 2 by simp
qed

subsection \<open>Unknown room types\<close>

text \<open>
  Claim C3, amended: a room type that is not in \<open>ROOM_FURNITURE_REQUIREMENTS\<close> raises
  nothing (the table is read with \<open>.get(room_type, {})\<close> and the source has no
  unknown-room-type error): with a configured tier and a non-zero budget the function
  returns a result with no products, \<open>budget_spent\<close> 0 and \<open>budget_remaining\<close>
  \<open>round(budget_eur, 2)\<close>.
\<close>

theorem unknown_room_type_is_unfurnished:
  assumes "map_of ROOM_FURNITURE_REQUIREMENTS (rtype rm) = None"
    and "map_of BUDGET_TIERS tier = Some cfg" and "b \<noteq> 0"
  shows "match_furniture_for_room env rm b tier sty = Inr (unfurnished rm b tier sty)"
  using assms
  by (simp add: match_furniture_for_room_def Let_def requirements_of_def build_result_initial)

text \<open>A garage, the standard tier and a budget of 1000.\<close>

theorem unknown_room_type_is_unfurnished_witness:
  "map_of ROOM_FURNITURE_REQUIREMENTS (rtype sample_garage) = None
   \<and> map_of BUDGET_TIERS ''standard'' \<noteq> None
   \<and> match_furniture_for_room (sample_env [sample_sofa]) sample_garage 1000 ''standard'' None
       = Inr (unfurnished sample_garage 1000 ''standard'' None)"
proof -
  have r: "map_of ROOM_FURNITURE_REQUIREMENTS (rtype sample_garage) = None"
    by (simp add: ROOM_FURNITURE_REQUIREMENTS_def sample_garage_def sample_room_def)
  obtain cfg where t: "map_of BUDGET_TIERS ''standard'' = Some cfg"
    by (simp add: BUDGET_TIERS_def)
  have b: "(1000 :: rat) \<noteq> 0" by simp
  from unknown_room_type_is_unfurnished [OF r t b] r t show ?thesis by simp
qed

text \<open>
  Claim C3 as stated fails: for a garage, which is in none of the tables, the function
  returns a result and raises no error.
\<close>

theorem unknown_room_type_returns_result:
  "map_of ROOM_FURNITURE_REQUIREMENTS ''garage'' = None
   \<and> map_of ROOM_BUDGET_ALLOCATION ''garage'' = None
   \<and> match_furniture_for_room (sample_env [sample_sofa]) sample_garage 1000 ''standard'' None
       = Inr \<lparr>res_room = sample_garage, res_tier = ''standard'', res_style = None,
              budget_total = 1000, budget_spent = 0, budget_remaining = 1000,
              budget_utilization_pct = 0, products = [], product_count = 0,
              product_images_for_render = [], buy_links = []\<rparr>"
  by code_simp

subsection \<open>What raises for a known room type\<close>

text \<open>
  Claim C4: for a known room type the function never raises, whatever the tier and the
  budget. The code raises \<open>ZeroDivisionError\<close> for a budget of 0, in
  \<open>total_spent / budget_eur\<close> of \<open>budget_utilization_pct\<close>, and \<open>KeyError\<close> for a tier that
  is not a key of \<open>BUDGET_TIERS\<close>; with a configured tier and a non-zero budget it returns
  (\<open>match_furniture_for_room_returns\<close>).
\<close>

theorem zero_budget_raises:
  "match_furniture_for_room (sample_env [sample_sofa]) sample_living_room 0 ''standard'' None
     = Inl ZeroDivisionError
   \<and> match_furniture_for_room (sample_env [sample_sofa]) sample_living_room 1000 ''deluxe'' None
     = Inl KeyError"
  by code_simp

subsection \<open>The price window of the queries\<close>






subsection \<open>Slots that add nothing\<close>

lemma ROOM_FURNITURE_REQUIREMENTS_distinct:
  "list_all (\<lambda>kv. slot_names_distinct (snd kv)) ROOM_FURNITURE_REQUIREMENTS"
  by (simp add: ROOM_FURNITURE_REQUIREMENTS_def slot_names_distinct_def)

lemma requirements_of_distinct: "slot_names_distinct (requirements_of rt)"
proof (cases "map_of ROOM_FURNITURE_REQUIREMENTS rt")
  case None
  then show ?thesis by (simp add: requirements_of_def slot_names_distinct_def)
next
  case (Some r)
  then have "(rt, r) \<in> set ROOM_FURNITURE_REQUIREMENTS" by (rule map_of_SomeD)
  then have "slot_names_distinct r"
    using ROOM_FURNITURE_REQUIREMENTS_distinct by (auto simp: list_all_iff)
  then show ?thesis using Some by (simp add: requirements_of_def)
qed

lemma slots_of_after_purchases:
  "slots_of (after_purchases n (bought env rm sname best) p st) \<subseteq> insert sname (slots_of st)"
  by (auto simp: slots_of_def after_purchases_def bought_def)

lemma fill_required_slot_slots:
  assumes "fill_required_slot env rm tier sty cfg al sl st = Inr st'"
  shows "slots_of st' \<subseteq> insert (slot_name sl) (slots_of st)"
  using fill_required_slot_Inr [OF assms] slots_of_after_purchases by fastforce

lemma fill_optional_slot_slots:
  assumes "fill_optional_slot env rm b tier sty cfg al sl st = Inr st'"
  shows "slots_of st' \<subseteq> insert (slot_name sl) (slots_of st)"
  using fill_optional_slot_Inr [OF assms] slots_of_after_purchases by fastforce

lemma fill_required_slots:
  assumes "fill_required env rm tier sty cfg al sls st = Inr st'"
  shows "slots_of st' \<subseteq> slots_of st \<union> set (map slot_name sls)"
  using assms
proof (induction sls arbitrary: st)
  case Nil
  then show ?case by simp
next
  case (Cons sl sls)
  from Cons.prems obtain st1
    where s1: "fill_required_slot env rm tier sty cfg al sl st = Inr st1"
      and s2: "fill_required env rm tier sty cfg al sls st1 = Inr st'"
    by (auto split: sum.splits)
  from Cons.IH [OF s2] fill_required_slot_slots [OF s1] show ?case by auto
qed

lemma fill_optional_slots:
  assumes "fill_optional env rm b tier sty cfg al sls st = Inr st'"
  shows "slots_of st' \<subseteq> slots_of st \<union> set (map slot_name sls)"
  using assms
proof (induction sls arbitrary: st)
  case Nil
  then show ?case by simp
next
  case (Cons sl sls)
  show ?case
  proof (cases "remaining_budget st \<le> 0")
    case True
    then show ?thesis using Cons.prems by auto
  next
    case False
    with Cons.prems obtain st1
      where s1: "fill_optional_slot env rm b tier sty cfg al sl st = Inr st1"
        and s2: "fill_optional env rm b tier sty cfg al sls st1 = Inr st'"
      by (auto split: sum.splits)
    from Cons.IH [OF s2] fill_optional_slot_slots [OF s1] show ?thesis by auto
  qed
qed

text \<open>The loops compose along a split of the slot list.\<close>

lemma fill_required_append:
  "fill_required env rm tier sty cfg al (xs @ ys) st =
     (case fill_required env rm tier sty cfg al xs st of
        Inl e \<Rightarrow> Inl e
      | Inr st' \<Rightarrow> fill_required env rm tier sty cfg al ys st')"
  by (induction xs arbitrary: st) (auto split: sum.splits)


lemma fill_required_slot_no_candidates:
  assumes "required_candidates env rm sty cfg al sl st = []"
    and "resolve_quantity (req_quantity sl) \<noteq> 0"
  shows "fill_required_slot env rm tier sty cfg al sl st = Inr st"
  using assms by (simp add: fill_required_slot_def Let_def)


lemma distinct_nth_elsewhere:
  assumes "distinct (map f xs)" and "i < length xs"
  shows "f (xs ! i) \<notin> set (map f (take i xs)) \<and> f (xs ! i) \<notin> set (map f (drop (Suc i) xs))"
proof -
  have "map f xs = map f (take i xs) @ f (xs ! i) # map f (drop (Suc i) xs)"
    using id_take_nth_drop [OF assms(2)] by (metis list.simps(9) map_append)
  then have "distinct (map f (take i xs) @ f (xs ! i) # map f (drop (Suc i) xs))"
    using assms(1) by simp
  then show ?thesis by auto
qed

text \<open>A slot that adds nothing at its turn has no item in the final list.\<close>

lemma fill_required_skipped:
  assumes all: "fill_required env rm tier sty cfg al sls st0 = Inr st1"
    and i: "i < length sls"
    and pre: "fill_required env rm tier sty cfg al (take i sls) st0 = Inr st"
    and skip: "fill_required_slot env rm tier sty cfg al (sls ! i) st = Inr st"
    and d: "distinct (map slot_name sls)"
    and fresh: "slot_name (sls ! i) \<notin> slots_of st0"
  shows "fill_required env rm tier sty cfg al (take (Suc i) sls) st0 = Inr st
       \<and> slot_name (sls ! i) \<notin> slots_of st1"
proof -
  have split: "sls = take i sls @ sls ! i # drop (Suc i) sls"
    using i by (rule id_take_nth_drop)
  have t: "take (Suc i) sls = take i sls @ [sls ! i]"
    using i by (rule take_Suc_conv_app_nth)
  have 1: "fill_required env rm tier sty cfg al (take (Suc i) sls) st0 = Inr st"
    by (simp add: t fill_required_append pre skip)
  have "fill_required env rm tier sty cfg al (take i sls @ sls ! i # drop (Suc i) sls) st0 = Inr st1"
    using all split by simp
  then have rest: "fill_required env rm tier sty cfg al (drop (Suc i) sls) st = Inr st1"
    by (simp add: fill_required_append pre skip)
  from distinct_nth_elsewhere [OF d i]
  have n1: "slot_name (sls ! i) \<notin> set (map slot_name (take i sls))"
    and n2: "slot_name (sls ! i) \<notin> set (map slot_name (drop (Suc i) sls))" by simp_all
  from fill_required_slots [OF pre] fresh n1 have "slot_name (sls ! i) \<notin> slots_of st" by auto
  with fill_required_slots [OF rest] n2 have "slot_name (sls ! i) \<notin> slots_of st1" by auto
  with 1 show ?thesis by simp
qed


lemma slots_of_member: "it \<in> set (selected_products st) \<Longrightarrow> slot it \<in> slots_of st"
  by (simp add: slots_of_def)

lemma slots_of_initial: "slots_of (initial_state b) = {}"
  by (simp add: slots_of_def initial_state_def)

lemma match_furniture_for_room_states:
  assumes "match_furniture_for_room env rm b tier sty = Inr res"
    and "map_of BUDGET_TIERS tier = Some cfg"
  shows "\<exists>st1 st2.
           fill_required env rm tier sty cfg (allocations_of (rtype rm))
              (required (requirements_of (rtype rm))) (initial_state b) = Inr st1
         \<and> fill_optional env rm b tier sty cfg (allocations_of (rtype rm))
              (optional (requirements_of (rtype rm))) st1 = Inr st2
         \<and> products res = selected_products st2"
  using match_furniture_for_room_Inr [OF assms(1)] assms(2) build_result_fields by fastforce

text \<open>
  Claim C5, amended: a required slot for which the query returns no candidate is not
  recorded: the loop body appends nothing and leaves the state as it was, and the returned
  \<open>products\<close> list holds no entry for the slot (the result has no other field for it).
  The state \<open>st\<close> is the one in which the loop reaches the slot.
\<close>

theorem unmet_required_slot_is_omitted:
  assumes run: "match_furniture_for_room env rm b tier sty = Inr res"
    and cfg: "map_of BUDGET_TIERS tier = Some cfg"
    and al: "al = allocations_of (rtype rm)"
    and reqs: "reqs = required (requirements_of (rtype rm))"
    and i: "i < length reqs"
    and pre: "fill_required env rm tier sty cfg al (take i reqs) (initial_state b) = Inr st"
    and none: "required_candidates env rm sty cfg al (reqs ! i) st = []"
  shows "fill_required env rm tier sty cfg al (take (Suc i) reqs) (initial_state b) = Inr st
       \<and> (\<forall>it \<in> set (products res). slot it \<noteq> slot_name (reqs ! i))"
proof -
  let ?opts = "optional (requirements_of (rtype rm))"
  from match_furniture_for_room_states [OF run cfg] obtain st1 st2 where
    r: "fill_required env rm tier sty cfg al reqs (initial_state b) = Inr st1"
    and o: "fill_optional env rm b tier sty cfg al ?opts st1 = Inr st2"
    and pr: "products res = selected_products st2"
    unfolding al reqs by blast
  have dist: "distinct (map slot_name (reqs @ ?opts))"
    using requirements_of_distinct [of "rtype rm"] by (simp add: slot_names_distinct_def reqs)
  then have d: "distinct (map slot_name reqs)" by simp
  have notopt: "slot_name (reqs ! i) \<notin> set (map slot_name ?opts)"
    using dist nth_mem [OF i] by fastforce
  have q: "resolve_quantity (req_quantity (reqs ! i)) \<noteq> 0"
    using quantities_ok_nonzero [OF required_quantities_ok, of "rtype rm"] i reqs by simp
  have skip: "fill_required_slot env rm tier sty cfg al (reqs ! i) st = Inr st"
    using fill_required_slot_no_candidates [OF none q] .
  have fresh: "slot_name (reqs ! i) \<notin> slots_of (initial_state b)"
    by (simp add: slots_of_initial)
  from fill_required_skipped [OF r i pre skip d fresh]
  have 1: "fill_required env rm tier sty cfg al (take (Suc i) reqs) (initial_state b) = Inr st"
    and n1: "slot_name (reqs ! i) \<notin> slots_of st1" by simp_all
  from fill_optional_slots [OF o] n1 notopt
  have "slot_name (reqs ! i) \<notin> slots_of st2" by auto
  then have "\<forall>it \<in> set (products res). slot it \<noteq> slot_name (reqs ! i)"
    unfolding pr using slots_of_member [of _ st2] by metis
  with 1 show ?thesis by simp
qed

lemma standard_tier_configured: "map_of BUDGET_TIERS ''standard'' = Some standard_tier"
  by (simp add: BUDGET_TIERS_def standard_tier_def)

lemma living_room_required:
  "required (requirements_of (rtype sample_living_room)) = [sofa_slot, coffee_table_slot]"
  by (simp add: requirements_of_def ROOM_FURNITURE_REQUIREMENTS_def sample_living_room_def
      sample_room_def sofa_slot_def coffee_table_slot_def)


lemma sofa_then_no_coffee_table:
  "fill_required (sample_env [sample_sofa]) sample_living_room ''standard'' None standard_tier
     (allocations_of (rtype sample_living_room)) [sofa_slot] (initial_state 1000) = Inr after_sofa
   \<and> required_candidates (sample_env [sample_sofa]) sample_living_room None standard_tier
       (allocations_of (rtype sample_living_room)) coffee_table_slot after_sofa = []"
  by code_simp

text \<open>The sample run: the sofa is bought, the coffee table finds no candidate.\<close>

theorem unmet_required_slot_is_omitted_witness:
  "match_furniture_for_room (sample_env [sample_sofa]) sample_living_room 1000 ''standard'' None
     = Inr sample_result
   \<and> required (requirements_of (rtype sample_living_room)) ! 1 = coffee_table_slot
   \<and> required_candidates (sample_env [sample_sofa]) sample_living_room None standard_tier
       (allocations_of (rtype sample_living_room)) coffee_table_slot after_sofa = []
   \<and> products sample_result \<noteq> []
   \<and> list_all (\<lambda>it. slot it \<noteq> ''coffee_table'') (products sample_result)"
proof -
  let ?reqs = "required (requirements_of (rtype sample_living_room))"
  have i: "1 < length ?reqs" by (simp add: living_room_required)
  have n: "?reqs ! 1 = coffee_table_slot" by (simp add: living_room_required)
  have t: "take 1 ?reqs = [sofa_slot]" by (simp add: living_room_required)
  have pre: "fill_required (sample_env [sample_sofa]) sample_living_room ''standard'' None
      standard_tier (allocations_of (rtype sample_living_room)) (take 1 ?reqs)
      (initial_state 1000) = Inr after_sofa"
    unfolding t using sofa_then_no_coffee_table by simp
  have none: "required_candidates (sample_env [sample_sofa]) sample_living_room None standard_tier
       (allocations_of (rtype sample_living_room)) (?reqs ! 1) after_sofa = []"
    unfolding n using sofa_then_no_coffee_table by simp
  from unmet_required_slot_is_omitted [OF sample_run standard_tier_configured refl refl i pre none]
  have "\<forall>it \<in> set (products sample_result). slot it \<noteq> slot_name coffee_table_slot"
    unfolding n by simp
  then have "list_all (\<lambda>it. slot it \<noteq> ''coffee_table'') (products sample_result)"
    by (simp add: list_all_iff coffee_table_slot_def)
  moreover have "products sample_result \<noteq> []" by (simp add: sample_result_def)
  ultimately show ?thesis using sample_run n none by simp
qed

text \<open>
  Claim C5 as stated fails: in the sample run the required slot \<open>coffee_table\<close> has no
  candidate, and the result lists the sofa only.
\<close>

theorem unmet_required_slot_not_recorded:
  "match_furniture_for_room (sample_env [sample_sofa]) sample_living_room 1000 ''standard'' None
     = Inr sample_result
   \<and> map slot_name (required (requirements_of ''living room'')) = [''sofa'', ''coffee_table'']
   \<and> required_candidates (sample_env [sample_sofa]) sample_living_room None standard_tier
       (allocations_of ''living room'') coffee_table_slot after_sofa = []
   \<and> map slot (products sample_result) = [''sofa'']"
  by code_simp





subsection \<open>Double arithmetic\<close>






lemma two_pow_nat: "two_pow (int n) = 2 ^ n"
  by (simp add: two_pow_def)








subsection \<open>Budget distribution\<close>






















































subsection \<open>Determinism\<close>












lemma sofa_a_first_run:
  "match_furniture_for_room (sample_env [sofa_a, sofa_b]) sample_living_room 1000
     ''standard'' None
   = build_result (sample_env [sofa_a, sofa_b]) sample_living_room 1000 ''standard'' None
       \<lparr>selected_products =
          [\<lparr>slot = ''sofa'', product = sofa_a, quantity = 1, placement = ''floor''\<rparr>],
        total_spent = 200, remaining_budget = 800\<rparr>"
  by code_simp

lemma sofa_b_first_run:
  "match_furniture_for_room (sample_env [sofa_b, sofa_a]) sample_living_room 1000
     ''standard'' None
   = build_result (sample_env [sofa_b, sofa_a]) sample_living_room 1000 ''standard'' None
       \<lparr>selected_products =
          [\<lparr>slot = ''sofa'', product = sofa_b, quantity = 1, placement = ''floor''\<rparr>],
        total_spent = 200, remaining_budget = 800\<rparr>"
  by code_simp

lemma tie_order_runs_differ:
  "match_furniture_for_room (sample_env [sofa_a, sofa_b]) sample_living_room 1000
     ''standard'' None
   \<noteq> match_furniture_for_room (sample_env [sofa_b, sofa_a]) sample_living_room 1000
       ''standard'' None"
  by code_simp







text \<open>
  Against the claim as stated: two sofas that differ in their name only have the same
  rating and the same score. With the same room, budget, tier and style, the call that
  gets them from the database in one order buys the first, the call that gets them in the
  other order buys the second.
\<close>

theorem catalog_tie_order_changes_result:
  "mset (supabase_products (sample_env [sofa_b, sofa_a]))
     = mset (supabase_products (sample_env [sofa_a, sofa_b]))
   \<and> get_placement_for_slot (sample_env [sofa_b, sofa_a])
     = get_placement_for_slot (sample_env [sofa_a, sofa_b])
   \<and> R2_PUBLIC_URL (sample_env [sofa_b, sofa_a]) = R2_PUBLIC_URL (sample_env [sofa_a, sofa_b])
   \<and> match_furniture_for_room (sample_env [sofa_a, sofa_b]) sample_living_room 1000
       ''standard'' None
     = build_result (sample_env [sofa_a, sofa_b]) sample_living_room 1000 ''standard'' None
         \<lparr>selected_products =
            [\<lparr>slot = ''sofa'', product = sofa_a, quantity = 1, placement = ''floor''\<rparr>],
          total_spent = 200, remaining_budget = 800\<rparr>
   \<and> match_furniture_for_room (sample_env [sofa_b, sofa_a]) sample_living_room 1000
       ''standard'' None
     = build_result (sample_env [sofa_b, sofa_a]) sample_living_room 1000 ''standard'' None
         \<lparr>selected_products =
            [\<lparr>slot = ''sofa'', product = sofa_b, quantity = 1, placement = ''floor''\<rparr>],
          total_spent = 200, remaining_budget = 800\<rparr>
   \<and> match_furniture_for_room (sample_env [sofa_a, sofa_b]) sample_living_room 1000
       ''standard'' None
     \<noteq> match_furniture_for_room (sample_env [sofa_b, sofa_a]) sample_living_room 1000
         ''standard'' None"
  using sofa_a_first_run sofa_b_first_run tie_order_runs_differ
  by (simp add: sample_env_def add_mset_commute)

subsection \<open>The ranker against the signal table\<close>

text \<open>
  The score of the source agrees with the table of section 4.4 except on a value that is
  present and falsy: a luxury score, width or proportion of exactly \<open>0\<close>, or an empty
  image key.
\<close>

lemma score_eq_spec_table_score:
  assumes "luxury_score c \<noteq> Some 0" and "width_cm c \<noteq> Some 0"
    and "proportion_w_h c \<noteq> Some 0" and "r2_main_image_key c \<noteq> Some []"
  shows "score c target_price tier = spec_table_score c target_price tier"
proof -
  have 1: "price_points c target_price tier =
      (case price c of
        None \<Rightarrow> 0
      | Some p \<Rightarrow>
          (let r = p / target_price in
             (if 6 / 10 \<le> r \<and> r \<le> 11 / 10 then 30
              else if 4 / 10 \<le> r \<and> r \<le> 13 / 10 then 15
              else 0)
             + (if tier = ''luxury'' \<and> 8 / 10 < r then 10 else 0)))"
    by (auto simp: price_points_def Let_def split: option.splits)
  have 2: "image_points c = (if r2_main_image_key c \<noteq> None then 25 else 0)"
    using assms(4) by (cases "r2_main_image_key c") (auto simp: image_points_def)
  have 3: "dimension_points c =
      (if dimensions_source c \<in> {Some ''website_verified'', Some ''ai_estimated''} then 20
        else if width_cm c \<noteq> None then 10 else 0)"
    using assms(2) by (cases "width_cm c") (auto simp: dimension_points_def)
  have 4: "description_points c =
      (case visual_description c of None \<Rightarrow> 0 | Some d \<Rightarrow> if d \<noteq> [] then 15 else 0)"
    by (cases "visual_description c") (auto simp: description_points_def)
  have 5: "proportion_points c = (if proportion_w_h c \<noteq> None then 15 else 0)"
    using assms(3) by (cases "proportion_w_h c") (auto simp: proportion_points_def)
  have 6: "luxury_points c tier =
      (case luxury_score c of
          None \<Rightarrow> 0
        | Some l \<Rightarrow>
            if tier = ''luxury'' \<and> 7 / 10 < l then 15
            else if tier = ''budget'' \<and> l < 3 / 10 then 10
            else if tier \<in> {''standard'', ''premium''} \<and> 3 / 10 \<le> l \<and> l \<le> 7 / 10 then 10
            else 0)"
    using assms(1) by (cases "luxury_score c") (auto simp: luxury_points_def)
  have 7: "rating_points c = (case rating c of None \<Rightarrow> 0 | Some r \<Rightarrow> if 4 \<le> r then 10 else 0)"
    by (cases "rating c") (auto simp: rating_points_def)
  show ?thesis
    unfolding score_def spec_table_score_def 1 2 3 4 5 6 7 by (rule refl)
qed

text \<open>
  Claim C6: for every non-empty candidate list, target price and tier,
  \<open>rank_candidates\<close> returns the candidate whose additive score per the signal table of
  section 4.4 is maximal, the earliest one on a tie. The selection itself is right
  (\<open>rank_candidates_first_max\<close>: the first candidate of maximal \<open>score\<close>), but \<open>score\<close>
  is not the table's score: \<open>if c.get("luxury_score"):\<close> treats a luxury score of \<open>0.0\<close>
  as absent, so a budget-tier candidate with luxury score \<open>0\<close> misses the \<open>+10\<close> that the
  table gives to every score below \<open>0.3\<close>. On the two sofas below, equal but for the luxury
  score, the table ranks the second higher and the code returns the first.
\<close>

theorem rank_candidates_zero_luxury_score:
  "rank_candidates [sample_sofa, zero_luxury_sofa] 200 ''budget'' = Inr sample_sofa
   \<and> spec_table_score sample_sofa 200 ''budget''
       < spec_table_score zero_luxury_sofa 200 ''budget''"
  by (simp add: rank_candidates_def score_def spec_table_score_def price_points_def
      image_points_def dimension_points_def description_points_def proportion_points_def
      luxury_points_def rating_points_def sample_sofa_def zero_luxury_sofa_def)

end
